theory Spec2Isabelle
  imports Main "HOL-Library.Char_ord" "HOL-Library.List_Lexorder"
begin

section \<open>Python values used by the explorer client and the extractor\<close>

text \<open>
  A decoded response body and every record in it is JSON data.  Numbers are kept as
  integers; objects are association lists in insertion order (a Python \<open>dict\<close>), so a
  well-formed object has pairwise distinct keys.
\<close>

datatype json =
    JNull
  | JBool bool
  | JNum int
  | JStr string
  | JArr "json list"
  | JObj "(string \<times> json) list"

type_synonym pydict = "(string \<times> json) list"

text \<open>The exceptions the two modules raise or let through.\<close>

datatype exn =
    RequestException string
  | ValueError string
  | TypeError string
  | AttributeError string
  | KeyError string
  | IndexError string
  | RecursionError string
  | OtherException string

text \<open>\<open>d.get(k)\<close> and \<open>d.get(k, default)\<close>.\<close>

definition dict_get :: "pydict \<Rightarrow> string \<Rightarrow> json option" where
  "dict_get d k = map_of d k"

definition dict_get_default :: "pydict \<Rightarrow> string \<Rightarrow> json \<Rightarrow> json" where
  "dict_get_default d k dflt = (case map_of d k of None \<Rightarrow> dflt | Some v \<Rightarrow> v)"

text \<open>Truth value of a JSON value, as \<open>if x:\<close> and \<open>not x\<close> test it.\<close>

fun truthy :: "json \<Rightarrow> bool" where
  "truthy JNull = False"
| "truthy (JBool b) = b"
| "truthy (JNum n) = (n \<noteq> 0)"
| "truthy (JStr s) = (s \<noteq> [])"
| "truthy (JArr xs) = (xs \<noteq> [])"
| "truthy (JObj kvs) = (kvs \<noteq> [])"

text \<open>
  The elements \<open>list.extend(x)\<close> appends: the items of a list, the characters of a
  string, the keys of a dict; anything else is not iterable.
\<close>

fun py_iter :: "json \<Rightarrow> exn + json list" where
  "py_iter (JArr xs) = Inr xs"
| "py_iter (JStr s) = Inr (map (\<lambda>c. JStr [c]) s)"
| "py_iter (JObj kvs) = Inr (map (\<lambda>kv. JStr (fst kv)) kvs)"
| "py_iter JNull = Inl (TypeError ''NoneType object is not iterable'')"
| "py_iter (JBool b) = Inl (TypeError ''bool object is not iterable'')"
| "py_iter (JNum n) = Inl (TypeError ''int object is not iterable'')"

text \<open>The slice \<open>xs[:n]\<close>: a negative \<open>n\<close> counts from the end.\<close>

definition slice_to :: "'a list \<Rightarrow> int \<Rightarrow> 'a list" where
  "slice_to xs n =
     (if 0 \<le> n then take (nat n) xs else take (length xs - nat (- n)) xs)"

text \<open>\<open>str.upper()\<close> on ASCII letters and \<open>sep.join(xs)\<close>.\<close>

definition upper_char :: "char \<Rightarrow> char" where
  "upper_char c =
     (if CHR ''a'' \<le> c \<and> c \<le> CHR ''z''
      then (case c of Char b0 b1 b2 b3 b4 b5 b6 b7 \<Rightarrow> Char b0 b1 b2 b3 b4 False b6 b7)
      else c)"

definition upper :: "string \<Rightarrow> string" where
  "upper s = map upper_char s"

fun join :: "string \<Rightarrow> string list \<Rightarrow> string" where
  "join sep [] = []"
| "join sep [x] = x"
| "join sep (x # y # ys) = x @ sep @ join sep (y # ys)"

section \<open>The explorer client\<close>

record config =
  base_url :: string
  timeout :: int
  max_retries :: int
  retry_delay :: int

definition default_config :: config where
  "default_config =
     \<lparr>base_url = ''https://explorer.testnet.riselabs.xyz/api'',
      timeout = 30, max_retries = 3, retry_delay = 1\<rparr>"

datatype verb = GET | POST

text \<open>\<open>session.get\<close> when \<open>method.upper() == "GET"\<close>, \<open>session.post\<close> otherwise.\<close>

definition verb_of :: "string \<Rightarrow> verb" where
  "verb_of method = (if upper method = ''GET'' then GET else POST)"

text \<open>
  One pass through the body of the \<open>try\<close> block of \<open>_make_request\<close>: the HTTP exchange,
  \<open>raise_for_status\<close>, decoding, and the look at the \<open>status\<close> field.  Either an exception
  comes out of it (a connection error, a timeout and an error status are all
  \<open>RequestException\<close>s; a body that is not a JSON object makes \<open>data.get\<close> raise an
  \<open>AttributeError\<close>), or the body is decoded to a dict.  The network is a function giving
  the outcome of the exchange from the number of exchanges made before it, the verb and
  the parameters.
\<close>

datatype exchange = Raised exn | Decoded pydict

type_synonym network = "nat \<Rightarrow> verb \<Rightarrow> pydict \<Rightarrow> exchange"

text \<open>
  Messages logged at warning level, with their arguments instead of the formatted text.
  Messages at info level are left out.
\<close>

datatype warning =
    AttemptFailed int string
  | ApiReturnedError json
  | NoDataToSave string
  | CouldNotParseABI
  | ContractNotVerified string

text \<open>
  What a file is given to hold: a value handed to \<open>json.dump\<close>, a text, or the header and
  the rows of cells handed to the CSV writer (before the writer formats and quotes them).
\<close>

type_synonym path = string

datatype content =
    JsonText json
  | PlainText string
  | CsvTable "string list" "json list list"

text \<open>
  What the program does to the outside: the calls handed to \<open>_make_request\<close>, the HTTP
  exchanges started, the arguments of \<open>time.sleep\<close>, the warnings logged and the files
  written, each in the order it happened.  Creating a directory and opening a file for
  writing are taken to succeed.
\<close>

record world =
  api_calls :: "(string \<times> pydict) list"
  http_log :: "(verb \<times> pydict) list"
  sleeps :: "int list"
  warnings :: "warning list"
  files :: "(path \<times> content) list"

definition world0 :: world where
  "world0 = \<lparr>api_calls = [], http_log = [], sleeps = [], warnings = [], files = []\<rparr>"

text \<open>\<open>time.sleep\<close> refuses a negative length.\<close>

definition sleep :: "int \<Rightarrow> world \<Rightarrow> (exn + unit) \<times> world" where
  "sleep secs w =
     (if secs < 0 then (Inl (ValueError ''sleep length must be non-negative''), w)
      else (Inr (), w\<lparr>sleeps := sleeps w @ [secs]\<rparr>))"

text \<open>
  The ways out of \<open>_make_request\<close>: \<open>return data\<close>; the bare \<open>raise\<close> in the handler
  after the last attempt; an exception the handler does not catch or that is raised
  inside the handler; and the \<open>raise\<close> after the loop.
\<close>

datatype mr_exit =
    Returned pydict
  | Reraised exn
  | Uncaught exn
  | MaxRetriesExceeded

fun result_of :: "mr_exit \<Rightarrow> exn + pydict" where
  "result_of (Returned data) = Inr data"
| "result_of (Reraised e) = Inl e"
| "result_of (Uncaught e) = Inl e"
| "result_of MaxRetriesExceeded = Inl (RequestException ''Max retries exceeded'')"

text \<open>The \<open>for attempt in range(max_retries)\<close> loop, from \<open>attempt\<close> on.\<close>

function attempts ::
  "network \<Rightarrow> config \<Rightarrow> pydict \<Rightarrow> string \<Rightarrow> int \<Rightarrow> world \<Rightarrow> mr_exit \<times> world" where
  "attempts net cfg params method attempt w =
     (if attempt < max_retries cfg then
        (let v = verb_of method;
             w1 = w\<lparr>http_log := http_log w @ [(v, params)]\<rparr>
         in case net (length (http_log w)) v params of
              Decoded data \<Rightarrow>
                (Returned data,
                 if dict_get data ''status'' = Some (JStr ''0'')
                 then w1\<lparr>warnings := warnings w1 @
                        [ApiReturnedError (dict_get_default data ''message'' (JStr ''Unknown error''))]\<rparr>
                 else w1)
            | Raised e \<Rightarrow>
                (case e of
                   RequestException msg \<Rightarrow>
                     (let w2 = w1\<lparr>warnings := warnings w1 @ [AttemptFailed (attempt + 1) msg]\<rparr>
                      in if attempt < max_retries cfg - 1
                         then (case sleep (retry_delay cfg * (attempt + 1)) w2 of
                                 (Inl err, w3) \<Rightarrow> (Uncaught err, w3)
                               | (Inr u, w3) \<Rightarrow> attempts net cfg params method (attempt + 1) w3)
                         else (Reraised e, w2))
                 | _ \<Rightarrow> (Uncaught e, w1)))
      else (MaxRetriesExceeded, w))"
  by pat_completeness auto
termination
  by (relation "measure (\<lambda>(net, cfg, params, method, attempt, w). nat (max_retries cfg - attempt))")
     auto

declare attempts.simps [simp del]

definition make_request_exit ::
  "network \<Rightarrow> config \<Rightarrow> pydict \<Rightarrow> string \<Rightarrow> world \<Rightarrow> mr_exit \<times> world" where
  "make_request_exit net cfg params method w =
     attempts net cfg params method 0 (w\<lparr>api_calls := api_calls w @ [(method, params)]\<rparr>)"

definition make_request ::
  "network \<Rightarrow> config \<Rightarrow> pydict \<Rightarrow> string \<Rightarrow> world \<Rightarrow> (exn + pydict) \<times> world" where
  "make_request net cfg params method w =
     (case make_request_exit net cfg params method w of (x, w') \<Rightarrow> (result_of x, w'))"

subsection \<open>Endpoint methods\<close>

text \<open>An optional integer argument is added to the parameters only when it is not \<open>None\<close>.\<close>

definition opt_int_param :: "string \<Rightarrow> int option \<Rightarrow> pydict" where
  "opt_int_param k v = (case v of None \<Rightarrow> [] | Some n \<Rightarrow> [(k, JNum n)])"

definition get_balance ::
  "network \<Rightarrow> config \<Rightarrow> string \<Rightarrow> world \<Rightarrow> (exn + pydict) \<times> world" where
  "get_balance net cfg address w =
     make_request net cfg
       [(''module'', JStr ''account''), (''action'', JStr ''balance''),
        (''address'', JStr address)] ''GET'' w"

definition balance_multi_params :: "string list \<Rightarrow> pydict" where
  "balance_multi_params addresses =
     [(''module'', JStr ''account''), (''action'', JStr ''balancemulti''),
      (''address'', JStr (join '','' addresses))]"

definition get_balance_multi ::
  "network \<Rightarrow> config \<Rightarrow> string list \<Rightarrow> world \<Rightarrow> (exn + pydict) \<times> world" where
  "get_balance_multi net cfg addresses w =
     (if 20 < length addresses then (Inl (ValueError ''Maximum 20 addresses allowed''), w)
      else make_request net cfg (balance_multi_params addresses) ''GET'' w)"

definition transactions_params ::
  "string \<Rightarrow> int option \<Rightarrow> int option \<Rightarrow> int \<Rightarrow> int \<Rightarrow> string \<Rightarrow> pydict" where
  "transactions_params address startblock endblock page offset order =
     [(''module'', JStr ''account''), (''action'', JStr ''txlist''),
      (''address'', JStr address), (''page'', JNum page), (''offset'', JNum offset),
      (''sort'', JStr order)]
     @ opt_int_param ''startblock'' startblock @ opt_int_param ''endblock'' endblock"

definition get_transactions ::
  "network \<Rightarrow> config \<Rightarrow> string \<Rightarrow> int option \<Rightarrow> int option \<Rightarrow> int \<Rightarrow> int \<Rightarrow> string \<Rightarrow>
   world \<Rightarrow> (exn + pydict) \<times> world" where
  "get_transactions net cfg address startblock endblock page offset order w =
     make_request net cfg (transactions_params address startblock endblock page offset order)
       ''GET'' w"

text \<open>\<open>if contractaddress:\<close> leaves out \<open>None\<close> and the empty string.\<close>

definition token_transfers_params ::
  "string \<Rightarrow> string option \<Rightarrow> int option \<Rightarrow> int option \<Rightarrow> int \<Rightarrow> int \<Rightarrow> string \<Rightarrow> pydict" where
  "token_transfers_params address contractaddress startblock endblock page offset order =
     [(''module'', JStr ''account''), (''action'', JStr ''tokentx''),
      (''address'', JStr address), (''page'', JNum page), (''offset'', JNum offset),
      (''sort'', JStr order)]
     @ (case contractaddress of
          None \<Rightarrow> []
        | Some c \<Rightarrow> if c \<noteq> [] then [(''contractaddress'', JStr c)] else [])
     @ opt_int_param ''startblock'' startblock @ opt_int_param ''endblock'' endblock"

definition get_token_transfers ::
  "network \<Rightarrow> config \<Rightarrow> string \<Rightarrow> string option \<Rightarrow> int option \<Rightarrow> int option \<Rightarrow> int \<Rightarrow> int \<Rightarrow>
   string \<Rightarrow> world \<Rightarrow> (exn + pydict) \<times> world" where
  "get_token_transfers net cfg address contractaddress startblock endblock page offset order w =
     make_request net cfg
       (token_transfers_params address contractaddress startblock endblock page offset order)
       ''GET'' w"

definition block_reward_params :: "int \<Rightarrow> pydict" where
  "block_reward_params blockno =
     [(''module'', JStr ''block''), (''action'', JStr ''getblockreward''),
      (''blockno'', JNum blockno)]"

definition get_block_reward ::
  "network \<Rightarrow> config \<Rightarrow> int \<Rightarrow> world \<Rightarrow> (exn + pydict) \<times> world" where
  "get_block_reward net cfg blockno w =
     make_request net cfg (block_reward_params blockno) ''GET'' w"

definition get_contract_source_code ::
  "network \<Rightarrow> config \<Rightarrow> string \<Rightarrow> world \<Rightarrow> (exn + pydict) \<times> world" where
  "get_contract_source_code net cfg address w =
     make_request net cfg
       [(''module'', JStr ''contract''), (''action'', JStr ''getsourcecode''),
        (''address'', JStr address)] ''GET'' w"

definition token_holders_params :: "string \<Rightarrow> int \<Rightarrow> int \<Rightarrow> pydict" where
  "token_holders_params contractaddress page offset =
     [(''module'', JStr ''token''), (''action'', JStr ''getTokenHolders''),
      (''contractaddress'', JStr contractaddress), (''page'', JNum page),
      (''offset'', JNum offset)]"

definition get_token_holders ::
  "network \<Rightarrow> config \<Rightarrow> string \<Rightarrow> int \<Rightarrow> int \<Rightarrow> world \<Rightarrow> (exn + pydict) \<times> world" where
  "get_token_holders net cfg contractaddress page offset w =
     make_request net cfg (token_holders_params contractaddress page offset) ''GET'' w"

section \<open>The data extractor\<close>

record extractor =
  output_dir :: path

definition path_join :: "path \<Rightarrow> string \<Rightarrow> path" where
  "path_join dir name = dir @ ''/'' @ name"

definition json_dir :: "extractor \<Rightarrow> path" where
  "json_dir ex = path_join (output_dir ex) ''json''"

definition csv_dir :: "extractor \<Rightarrow> path" where
  "csv_dir ex = path_join (output_dir ex) ''csv''"

definition write_file :: "path \<Rightarrow> content \<Rightarrow> world \<Rightarrow> world" where
  "write_file p c w = w\<lparr>files := files w @ [(p, c)]\<rparr>"

subsection \<open>Saving JSON and CSV\<close>

definition save_json :: "extractor \<Rightarrow> json \<Rightarrow> string \<Rightarrow> string \<Rightarrow> world \<Rightarrow> path \<times> world" where
  "save_json ex data filename subdir w =
     (let save_dir = (if subdir \<noteq> [] then path_join (json_dir ex) subdir else json_dir ex);
          filepath = path_join save_dir (filename @ ''.json'')
      in (filepath, write_file filepath (JsonText data) w))"

text \<open>
  The loop \<open>for record in data: keys.update(record.keys())\<close>: only a dict has
  \<open>keys\<close>.
\<close>

fun collect_keys :: "json list \<Rightarrow> string set \<Rightarrow> exn + string set" where
  "collect_keys [] keys = Inr keys"
| "collect_keys (JObj d # records) keys = collect_keys records (keys \<union> set (map fst d))"
| "collect_keys (record # records) keys = Inl (AttributeError ''keys'')"

text \<open>
  The cells \<open>DictWriter\<close> hands to the writer for one record: \<open>rowdict.get(key, '')\<close> for
  each field name.  Every record is a dict once \<open>collect_keys\<close> has passed.
\<close>

fun csv_row :: "string list \<Rightarrow> json \<Rightarrow> json list" where
  "csv_row fieldnames (JObj d) = map (\<lambda>key. dict_get_default d key (JStr [])) fieldnames"
| "csv_row fieldnames record = []"

definition csv_table :: "json list \<Rightarrow> exn + content" where
  "csv_table data =
     (case collect_keys data {} of
        Inl e \<Rightarrow> Inl e
      | Inr keys \<Rightarrow>
          (let fieldnames = sorted_list_of_set keys
           in Inr (CsvTable fieldnames (map (csv_row fieldnames) data))))"

definition save_csv ::
  "extractor \<Rightarrow> json list \<Rightarrow> string \<Rightarrow> string \<Rightarrow> world \<Rightarrow> (exn + path option) \<times> world" where
  "save_csv ex data filename subdir w =
     (if data = [] then (Inr None, w\<lparr>warnings := warnings w @ [NoDataToSave filename]\<rparr>)
      else
        (let save_dir = (if subdir \<noteq> [] then path_join (csv_dir ex) subdir else csv_dir ex);
             filepath = path_join save_dir (filename @ ''.csv'')
         in case csv_table data of
              Inl e \<Rightarrow> (Inl e, w)
            | Inr table \<Rightarrow> (Inr (Some filepath), write_file filepath table w)))"

subsection \<open>Page by page accumulation\<close>

text \<open>
  The \<open>while\<close> loop of \<open>extract_account_data\<close>, \<open>extract_token_transfers\<close> and
  \<open>extract_token_holders\<close>; \<open>fetch\<close> is the client call the loop makes for a page
  number, \<open>cap\<close> the maximum asked for, \<open>acc\<close> the list accumulated so far.
\<close>

function paginate ::
  "(int \<Rightarrow> 'w \<Rightarrow> (exn + pydict) \<times> 'w) \<Rightarrow> int \<Rightarrow> json list \<Rightarrow> int \<Rightarrow> 'w \<Rightarrow>
   (exn + json list) \<times> 'w" where
  "paginate fetch cap acc page w =
     (if int (length acc) < cap then
        (case fetch page w of
           (Inl e, w') \<Rightarrow> (Inl e, w')
         | (Inr result, w') \<Rightarrow>
             if dict_get result ''status'' = Some (JStr ''1'') then
               (let txs = dict_get_default result ''result'' (JArr [])
                in if \<not> truthy txs then (Inr acc, w')
                   else (case py_iter txs of
                           Inl e \<Rightarrow> (Inl e, w')
                         | Inr items \<Rightarrow> paginate fetch cap (acc @ items) (page + 1) w'))
             else (Inr acc, w'))
      else (Inr acc, w))"
  by pat_completeness auto
termination
  apply (relation "measure (\<lambda>(fetch, cap, acc, page, w). nat (cap - int (length acc)))")
   apply simp
  subgoal for fetch cap acc page w x y z txs items
    by (cases "dict_get_default z ''result'' (JArr [])") auto
  done

declare paginate.simps [simp del]

text \<open>The loop from an empty list and page 1, then the slice \<open>[:cap]\<close>.\<close>

definition accumulate ::
  "(int \<Rightarrow> 'w \<Rightarrow> (exn + pydict) \<times> 'w) \<Rightarrow> int \<Rightarrow> 'w \<Rightarrow> (exn + json list) \<times> 'w" where
  "accumulate fetch cap w =
     (case paginate fetch cap [] 1 w of
        (Inl e, w') \<Rightarrow> (Inl e, w')
      | (Inr all, w') \<Rightarrow> (Inr (slice_to all cap), w'))"

definition all_transactions ::
  "network \<Rightarrow> config \<Rightarrow> string \<Rightarrow> int \<Rightarrow> world \<Rightarrow> (exn + json list) \<times> world" where
  "all_transactions net cfg address max_transactions w =
     (let offset = min 100 max_transactions
      in accumulate (\<lambda>page. get_transactions net cfg address None None page offset ''desc'')
           max_transactions w)"

definition all_transfers ::
  "network \<Rightarrow> config \<Rightarrow> string \<Rightarrow> string option \<Rightarrow> int \<Rightarrow> world \<Rightarrow>
   (exn + json list) \<times> world" where
  "all_transfers net cfg address contract_address max_transfers w =
     (let offset = 100
      in accumulate
           (\<lambda>page. get_token_transfers net cfg address contract_address None None page offset
              ''desc'')
           max_transfers w)"

definition all_holders ::
  "network \<Rightarrow> config \<Rightarrow> string \<Rightarrow> int \<Rightarrow> world \<Rightarrow> (exn + json list) \<times> world" where
  "all_holders net cfg contract_address max_holders w =
     (let offset = min 100 max_holders
      in accumulate (\<lambda>page. get_token_holders net cfg contract_address page offset)
           max_holders w)"

subsection \<open>Block ranges\<close>

text \<open>
  The \<open>for block_num in range(start_block, end_block + 1)\<close> loop of
  \<open>extract_block_range\<close> over the block numbers still to visit.
\<close>

fun block_loop ::
  "(int \<Rightarrow> 'w \<Rightarrow> (exn + pydict) \<times> 'w) \<Rightarrow> int list \<Rightarrow> json list \<Rightarrow> 'w \<Rightarrow>
   (exn + json list) \<times> 'w" where
  "block_loop fetch [] block_data w = (Inr block_data, w)"
| "block_loop fetch (block_num # rest) block_data w =
     (case fetch block_num w of
        (Inl e, w') \<Rightarrow> (Inl e, w')
      | (Inr result, w') \<Rightarrow>
          block_loop fetch rest
            (if dict_get result ''status'' = Some (JStr ''1'')
             then block_data @ [dict_get_default result ''result'' (JObj [])]
             else block_data)
            w')"

definition block_data ::
  "network \<Rightarrow> config \<Rightarrow> int \<Rightarrow> int \<Rightarrow> world \<Rightarrow> (exn + json list) \<times> world" where
  "block_data net cfg start_block end_block w =
     block_loop (get_block_reward net cfg) [start_block..end_block] [] w"

subsection \<open>Contract source and ABI\<close>

text \<open>\<open>x[0]\<close> on a value that passed \<open>if x:\<close>.\<close>

fun first_item :: "json \<Rightarrow> exn + json" where
  "first_item (JArr (x # xs)) = Inr x"
| "first_item (JArr []) = Inl (IndexError ''list index out of range'')"
| "first_item (JStr (c # cs)) = Inr (JStr [c])"
| "first_item (JStr []) = Inl (IndexError ''string index out of range'')"
| "first_item (JObj kvs) = Inl (KeyError ''0'')"
| "first_item JNull = Inl (TypeError ''NoneType object is not subscriptable'')"
| "first_item (JBool b) = Inl (TypeError ''bool object is not subscriptable'')"
| "first_item (JNum n) = Inl (TypeError ''int object is not subscriptable'')"

text \<open>
  What \<open>json.loads\<close> does with a string: it returns the parsed value, raises
  \<open>JSONDecodeError\<close> on a text that is not JSON, or raises something else (a
  \<open>RecursionError\<close> on a text nested too deeply, a plain \<open>ValueError\<close> on an integer
  with too many digits).
\<close>

datatype loads_outcome =
    Parsed json
  | JSONDecodeError
  | LoadsRaised exn

text \<open>
  \<open>extract_contract_data\<close>.  \<open>loads\<close> is \<open>json.loads\<close> on a string; \<open>timestamp\<close> is
  the formatted time of the call.  The handler \<open>except json.JSONDecodeError\<close> catches
  only that exception.  The result is \<open>saved_files\<close>, in insertion order.
\<close>

definition extract_contract_data ::
  "(string \<Rightarrow> loads_outcome) \<Rightarrow> network \<Rightarrow> config \<Rightarrow> extractor \<Rightarrow> string \<Rightarrow> string \<Rightarrow> world \<Rightarrow>
   (exn + (string \<times> path) list) \<times> world" where
  "extract_contract_data loads net cfg ex timestamp contract_address w =
     (let contract_dir = ''contract_'' @ take 10 contract_address
      in case get_contract_source_code net cfg contract_address w of
           (Inl e, w1) \<Rightarrow> (Inl e, w1)
         | (Inr source_result, w1) \<Rightarrow>
             if dict_get source_result ''status'' = Some (JStr ''1'') then
               (let contracts = dict_get_default source_result ''result'' (JArr [])
                in if truthy contracts then
                     (case first_item contracts of
                        Inl e \<Rightarrow> (Inl e, w1)
                      | Inr contract \<Rightarrow>
                          (case save_json ex contract (timestamp @ ''_contract_full'') contract_dir w1 of
                             (full_data, w2) \<Rightarrow>
                               (case contract of
                                  JObj c \<Rightarrow>
                                    (let source_code = dict_get_default c ''SourceCode'' (JStr []);
                                         source_file =
                                           path_join (path_join (output_dir ex) contract_dir)
                                             (timestamp @ ''_source.sol'')
                                     in case source_code of
                                          JStr code \<Rightarrow>
                                            (let w3 = write_file source_file (PlainText code) w2;
                                                 abi = dict_get_default c ''ABI'' (JStr []);
                                                 abi_file =
                                                   path_join (path_join (output_dir ex) contract_dir)
                                                     (timestamp @ ''_abi.json'')
                                             in case abi of
                                                  JStr abi_text \<Rightarrow>
                                                    (case loads abi_text of
                                                       Parsed abi_parsed \<Rightarrow>
                                                         (Inr [(''full_data'', full_data),
                                                               (''source_code'', source_file),
                                                               (''abi'', abi_file)],
                                                          write_file abi_file (JsonText abi_parsed) w3)
                                                     | JSONDecodeError \<Rightarrow>
                                                         (Inr [(''full_data'', full_data),
                                                               (''source_code'', source_file)],
                                                          w3\<lparr>warnings := warnings w3 @ [CouldNotParseABI]\<rparr>)
                                                     | LoadsRaised e \<Rightarrow> (Inl e, w3))
                                                | _ \<Rightarrow>
                                                    (Inl (TypeError ''the JSON object must be str, bytes or bytearray''),
                                                     w3))
                                        | _ \<Rightarrow>
                                            (Inl (TypeError ''write() argument must be str''),
                                             write_file source_file (PlainText []) w2))
                                | _ \<Rightarrow> (Inl (AttributeError ''get''), w2))))
                   else (Inr [], w1))
             else (Inr [], w1\<lparr>warnings := warnings w1 @ [ContractNotVerified contract_address]\<rparr>))"

section \<open>Sample servers and inputs\<close>

text \<open>
  A network whose first \<open>n\<close> exchanges fail with a connection error and whose later
  exchanges all end in \<open>final\<close>.
\<close>

definition flaky :: "nat \<Rightarrow> exchange \<Rightarrow> network" where
  "flaky n final k v params =
     (if k < n then Raised (RequestException ''connection refused'') else final)"

definition ok_body :: pydict where
  "ok_body = [(''status'', JStr ''1''), (''message'', JStr ''OK''), (''result'', JArr [])]"

definition error_body :: pydict where
  "error_body = [(''status'', JStr ''0''), (''message'', JStr ''NOTOK''), (''result'', JNull)]"

definition no_delay_config :: config where
  "no_delay_config = default_config\<lparr>retry_delay := 0\<rparr>"

definition no_retries_config :: config where
  "no_retries_config = default_config\<lparr>max_retries := 0\<rparr>"

text \<open>
  A list endpoint holding the pages \<open>pgs\<close>: page \<open>p\<close> is the \<open>p\<close>-th list, every later
  page is empty, and page \<open>bad\<close> (if any) reports failure.
\<close>

definition page_body :: "json list \<Rightarrow> pydict" where
  "page_body xs = [(''status'', JStr ''1''), (''message'', JStr ''OK''), (''result'', JArr xs)]"

definition paged_server :: "json list list \<Rightarrow> int \<Rightarrow> network" where
  "paged_server pgs bad k v params =
     (case dict_get params ''page'' of
        Some (JNum p) \<Rightarrow>
          if p = bad then Decoded error_body
          else Decoded (page_body (if 1 \<le> p \<and> p \<le> int (length pgs) then pgs ! nat (p - 1) else []))
      | _ \<Rightarrow> Raised (OtherException ''no page number''))"

definition tx1 :: json where "tx1 = JObj [(''hash'', JStr ''0x01''), (''value'', JStr ''10'')]"
definition tx2 :: json where "tx2 = JObj [(''hash'', JStr ''0x02''), (''value'', JStr ''20'')]"
definition tx3 :: json where "tx3 = JObj [(''hash'', JStr ''0x03''), (''value'', JStr ''30'')]"

text \<open>
  The pages \<open>pgs\<close>, all of them non-empty lists, are what \<open>fetch\<close> returns with
  status \<open>"1"\<close> for the page numbers from \<open>page\<close> on, starting in \<open>w\<close> and leaving \<open>w'\<close>.
\<close>

fun serves ::
  "(int \<Rightarrow> 'w \<Rightarrow> (exn + pydict) \<times> 'w) \<Rightarrow> int \<Rightarrow> 'w \<Rightarrow> json list list \<Rightarrow> 'w \<Rightarrow> bool" where
  "serves fetch page w [] w' = (w' = w)"
| "serves fetch page w (xs # rest) w' =
     (case fetch page w of
        (Inl e, w1) \<Rightarrow> False
      | (Inr r, w1) \<Rightarrow>
          dict_get r ''status'' = Some (JStr ''1'') \<and>
          dict_get_default r ''result'' (JArr []) = JArr xs \<and> xs \<noteq> [] \<and>
          serves fetch (page + 1) w1 rest w')"

text \<open>A block endpoint on which the block \<open>bad\<close> reports failure.\<close>

definition block_body :: "int \<Rightarrow> pydict" where
  "block_body b =
     [(''status'', JStr ''1''), (''message'', JStr ''OK''),
      (''result'', JObj [(''blockNumber'', JNum b), (''blockReward'', JStr ''0'')])]"

definition block_server :: "int \<Rightarrow> network" where
  "block_server bad k v params =
     (case dict_get params ''blockno'' of
        Some (JNum b) \<Rightarrow> Decoded (if b = bad then error_body else block_body b)
      | _ \<Rightarrow> Raised (OtherException ''no block number''))"

text \<open>
  Verified-contract responses whose ABI field is a text that is not JSON, is \<open>null\<close>,
  and is a thousand opening brackets; and a stand-in for \<open>json.loads\<close> on these
  texts: it parses the empty array, exceeds the recursion limit on the thousand brackets,
  and finds no JSON in anything else.
\<close>

definition contract_result :: "json \<Rightarrow> pydict" where
  "contract_result abi =
     [(''status'', JStr ''1''), (''message'', JStr ''OK''),
      (''result'', JArr [JObj [(''SourceCode'', JStr ''contract C {}''), (''ABI'', abi)]])]"

definition contract_body :: pydict where
  "contract_body = contract_result (JStr ''Contract source code not verified'')"

definition null_abi_body :: pydict where
  "null_abi_body = contract_result JNull"

definition deep_abi_body :: pydict where
  "deep_abi_body = contract_result (JStr (replicate 1000 CHR ''[''))"

definition sample_loads :: "string \<Rightarrow> loads_outcome" where
  "sample_loads abi_text =
     (if abi_text = ''[]'' then Parsed (JArr [])
      else if abi_text = replicate 1000 CHR ''[''
      then LoadsRaised (RecursionError ''maximum recursion depth exceeded'')
      else JSONDecodeError)"

definition sample_extractor :: extractor where
  "sample_extractor = \<lparr>output_dir = ''out''\<rparr>"

text \<open>The keys of a record, and two records with different key sets.\<close>

fun record_keys :: "json \<Rightarrow> string set" where
  "record_keys (JObj d) = set (map fst d)"
| "record_keys r = {}"

definition csv_sample :: "json list" where
  "csv_sample =
     [JObj [(''b'', JNum 2), (''a'', JNum 1)], JObj [(''a'', JNum 3), (''c'', JNum 4)]]"

section \<open>Properties of the retry loop\<close>

lemma attempts_exhausted:
  "\<not> attempt < max_retries cfg \<Longrightarrow> attempts net cfg params method attempt w = (MaxRetriesExceeded, w)"
  by (subst attempts.simps) simp

lemma attempts_decoded:
  assumes "attempt < max_retries cfg"
    and "net (length (http_log w)) (verb_of method) params = Decoded data"
  shows "attempts net cfg params method attempt w =
    (Returned data,
     w\<lparr>http_log := http_log w @ [(verb_of method, params)],
       warnings := warnings w @
         (if dict_get data ''status'' = Some (JStr ''0'')
          then [ApiReturnedError (dict_get_default data ''message'' (JStr ''Unknown error''))]
          else [])\<rparr>)"
  using assms by (subst attempts.simps) (simp add: Let_def)

lemma attempts_retry:
  assumes "attempt < max_retries cfg - 1"
    and "net (length (http_log w)) (verb_of method) params = Raised (RequestException msg)"
    and "0 \<le> retry_delay cfg * (attempt + 1)"
  shows "attempts net cfg params method attempt w =
    attempts net cfg params method (attempt + 1)
      (w\<lparr>http_log := http_log w @ [(verb_of method, params)],
         warnings := warnings w @ [AttemptFailed (attempt + 1) msg],
         sleeps := sleeps w @ [retry_delay cfg * (attempt + 1)]\<rparr>)"
  using assms by (subst attempts.simps) (simp add: Let_def sleep_def)

lemma attempts_last:
  assumes "attempt = max_retries cfg - 1"
    and "net (length (http_log w)) (verb_of method) params = Raised (RequestException msg)"
  shows "attempts net cfg params method attempt w =
    (Reraised (RequestException msg),
      w\<lparr>http_log := http_log w @ [(verb_of method, params)],
         warnings := warnings w @ [AttemptFailed (attempt + 1) msg]\<rparr>)"
  using assms by (subst attempts.simps) (simp add: Let_def)

lemma attempts_uncaught:
  assumes "attempt < max_retries cfg"
    and "net (length (http_log w)) (verb_of method) params = Raised e"
    and "\<forall>msg. e \<noteq> RequestException msg"
  shows "attempts net cfg params method attempt w =
    (Uncaught e, w\<lparr>http_log := http_log w @ [(verb_of method, params)]\<rparr>)"
  using assms by (subst attempts.simps) (simp add: Let_def split: exn.splits)

lemma attempts_sleep_fails:
  assumes "attempt < max_retries cfg - 1"
    and "net (length (http_log w)) (verb_of method) params = Raised (RequestException msg)"
    and "retry_delay cfg * (attempt + 1) < 0"
  shows "attempts net cfg params method attempt w =
    (Uncaught (ValueError ''sleep length must be non-negative''),
      w\<lparr>http_log := http_log w @ [(verb_of method, params)],
         warnings := warnings w @ [AttemptFailed (attempt + 1) msg]\<rparr>)"
  using assms by (subst attempts.simps) (simp add: Let_def sleep_def)

lemma attempts_invariant:
  assumes "nat (max_retries cfg - attempt) = n" and "attempt < max_retries cfg"
  shows "fst (attempts net cfg params method attempt w) \<noteq> MaxRetriesExceeded \<and>
         length (http_log w) < length (http_log (snd (attempts net cfg params method attempt w))) \<and>
         api_calls (snd (attempts net cfg params method attempt w)) = api_calls w"
  using assms
proof (induction n arbitrary: attempt w)
  case 0
  then show ?case by simp
next
  case (Suc n)
  show ?case
  proof (cases "net (length (http_log w)) (verb_of method) params")
    case (Decoded data)
    with Suc.prems show ?thesis by (simp add: attempts_decoded)
  next
    case (Raised e)
    show ?thesis
    proof (cases "\<exists>msg. e = RequestException msg")
      case False
      with Raised Suc.prems show ?thesis by (simp add: attempts_uncaught)
    next
      case True
      then obtain msg where e: "e = RequestException msg" by blast
      show ?thesis
      proof (cases "attempt < max_retries cfg - 1")
        case False
        with Suc.prems have "attempt = max_retries cfg - 1" by simp
        with Raised e show ?thesis by (simp add: attempts_last)
      next
        case lt: True
        show ?thesis
        proof (cases "retry_delay cfg * (attempt + 1) < 0")
          case True
          with lt Raised e show ?thesis by (simp add: attempts_sleep_fails)
        next
          case False
          let ?w = "w\<lparr>http_log := http_log w @ [(verb_of method, params)],
                      warnings := warnings w @ [AttemptFailed (attempt + 1) msg],
                      sleeps := sleeps w @ [retry_delay cfg * (attempt + 1)]\<rparr>"
          from False lt Raised e
          have step: "attempts net cfg params method attempt w =
                      attempts net cfg params method (attempt + 1) ?w"
            by (simp add: attempts_retry)
          from Suc.prems lt have "nat (max_retries cfg - (attempt + 1)) = n"
            and "attempt + 1 < max_retries cfg" by simp_all
          from Suc.IH [OF this, of ?w] show ?thesis
            unfolding step by simp
        qed
      qed
    qed
  qed
qed

lemma make_request_fst:
  "fst (make_request net cfg params method w) =
   result_of (fst (make_request_exit net cfg params method w))"
  by (simp add: make_request_def split: prod.splits)

lemma make_request_snd:
  "snd (make_request net cfg params method w) = snd (make_request_exit net cfg params method w)"
  by (simp add: make_request_def split: prod.splits)

lemma make_request_api_calls:
  "api_calls (snd (make_request net cfg params method w)) = api_calls w @ [(method, params)]"
proof (cases "0 < max_retries cfg")
  case True
  then show ?thesis
    using attempts_invariant [OF refl, of 0 cfg net params "method"]
    by (simp add: make_request_snd make_request_exit_def)
next
  case False
  then show ?thesis
    by (simp add: make_request_snd make_request_exit_def attempts_exhausted)
qed

section \<open>Properties of the accumulation loop\<close>

lemma paginate_done:
  "\<not> int (length acc) < cap \<Longrightarrow> paginate fetch cap acc page w = (Inr acc, w)"
  by (subst paginate.simps) simp

lemma paginate_error:
  "int (length acc) < cap \<Longrightarrow> fetch page w = (Inl e, w') \<Longrightarrow>
   paginate fetch cap acc page w = (Inl e, w')"
  by (subst paginate.simps) simp

lemma paginate_failure:
  "int (length acc) < cap \<Longrightarrow> fetch page w = (Inr r, w') \<Longrightarrow>
   dict_get r ''status'' \<noteq> Some (JStr ''1'') \<Longrightarrow>
   paginate fetch cap acc page w = (Inr acc, w')"
  by (subst paginate.simps) simp

lemma paginate_empty:
  "int (length acc) < cap \<Longrightarrow> fetch page w = (Inr r, w') \<Longrightarrow>
   dict_get r ''status'' = Some (JStr ''1'') \<Longrightarrow>
   \<not> truthy (dict_get_default r ''result'' (JArr [])) \<Longrightarrow>
   paginate fetch cap acc page w = (Inr acc, w')"
  by (subst paginate.simps) (simp add: Let_def)

lemma paginate_more:
  "int (length acc) < cap \<Longrightarrow> fetch page w = (Inr r, w') \<Longrightarrow>
   dict_get r ''status'' = Some (JStr ''1'') \<Longrightarrow>
   truthy (dict_get_default r ''result'' (JArr [])) \<Longrightarrow>
   py_iter (dict_get_default r ''result'' (JArr [])) = Inr items \<Longrightarrow>
   paginate fetch cap acc page w = paginate fetch cap (acc @ items) (page + 1) w'"
  by (subst paginate.simps) (simp add: Let_def)

lemma paginate_not_iterable:
  "int (length acc) < cap \<Longrightarrow> fetch page w = (Inr r, w') \<Longrightarrow>
   dict_get r ''status'' = Some (JStr ''1'') \<Longrightarrow>
   truthy (dict_get_default r ''result'' (JArr [])) \<Longrightarrow>
   py_iter (dict_get_default r ''result'' (JArr [])) = Inl e \<Longrightarrow>
   paginate fetch cap acc page w = (Inl e, w')"
  by (subst paginate.simps) (simp add: Let_def)

lemma slice_to_length: "0 \<le> cap \<Longrightarrow> int (length (slice_to xs cap)) \<le> cap"
  by (simp add: slice_to_def)

lemma slice_to_short: "int (length xs) \<le> cap \<Longrightarrow> slice_to xs cap = xs"
  by (simp add: slice_to_def)

lemma accumulate_length:
  "0 \<le> cap \<Longrightarrow> fst (accumulate fetch cap w) = Inr xs \<Longrightarrow> int (length xs) \<le> cap"
  by (auto simp: accumulate_def slice_to_length split: prod.splits sum.splits)

lemma paginate_returns:
  assumes ok: "\<forall>p v. \<exists>r v'. fetch p v = (Inr r, v') \<and>
                      (\<exists>xs. dict_get_default r ''result'' (JArr []) = JArr xs)"
    and "nat (cap - int (length acc)) = n"
  shows "\<exists>xs. fst (paginate fetch cap acc page w) = Inr xs"
  using assms(2)
proof (induction n arbitrary: acc page w rule: less_induct)
  case (less n)
  show ?case
  proof (cases "int (length acc) < cap")
    case False
    then show ?thesis by (simp add: paginate_done)
  next
    case True
    from ok obtain r w' xs where f: "fetch page w = (Inr r, w')"
      and r: "dict_get_default r ''result'' (JArr []) = JArr xs" by blast
    show ?thesis
    proof (cases "dict_get r ''status'' = Some (JStr ''1'')")
      case False
      with True f show ?thesis by (simp add: paginate_failure)
    next
      case st: True
      show ?thesis
      proof (cases "xs = []")
        case True
        with \<open>int (length acc) < cap\<close> f st r show ?thesis by (simp add: paginate_empty)
      next
        case False
        have step: "paginate fetch cap acc page w = paginate fetch cap (acc @ xs) (page + 1) w'"
          using True f st r False
          by (simp add: paginate_more [where r = r and w' = w' and items = xs])
        from False True less.prems have "nat (cap - int (length (acc @ xs))) < n"
          by (cases xs) auto
        from less.IH [OF this refl] show ?thesis unfolding step .
      qed
    qed
  qed
qed

lemma accumulate_returns:
  assumes "\<forall>p v. \<exists>r v'. fetch p v = (Inr r, v') \<and>
                      (\<exists>xs. dict_get_default r ''result'' (JArr []) = JArr xs)"
  shows "\<exists>xs. fst (accumulate fetch cap w) = Inr xs"
  using paginate_returns [OF assms refl, of cap "[]" 1 w]
  by (auto simp: accumulate_def split: prod.splits sum.splits)

lemma paginate_serves:
  assumes "serves fetch page w pgs w'" and "int (length acc + length (concat pgs)) < cap"
  shows "paginate fetch cap acc page w =
         paginate fetch cap (acc @ concat pgs) (page + int (length pgs)) w'"
  using assms
proof (induction pgs arbitrary: acc page w)
  case Nil
  then show ?case by simp
next
  case (Cons xs rest)
  from Cons.prems(1) obtain r w1 where f: "fetch page w = (Inr r, w1)"
    and st: "dict_get r ''status'' = Some (JStr ''1'')"
    and res: "dict_get_default r ''result'' (JArr []) = JArr xs" and ne: "xs \<noteq> []"
    and rest: "serves fetch (page + 1) w1 rest w'"
    by (auto split: prod.splits sum.splits)
  from Cons.prems(2) have lt: "int (length acc) < cap" by simp
  have "paginate fetch cap acc page w = paginate fetch cap (acc @ xs) (page + 1) w1"
    using lt f st res ne
    by (simp add: paginate_more [where r = r and w' = w1 and items = xs])
  also from Cons.prems(2) rest
  have "\<dots> = paginate fetch cap ((acc @ xs) @ concat rest) (page + 1 + int (length rest)) w'"
    by (intro Cons.IH) simp_all
  finally show ?case by (simp add: algebra_simps)
qed

lemma make_request_first_ok:
  assumes "0 < max_retries cfg"
    and "net (length (http_log w)) (verb_of method) params = Decoded d"
  shows "fst (make_request net cfg params method w) = Inr d"
  using assms by (simp add: make_request_fst make_request_exit_def attempts_decoded)

lemma all_transactions_accumulate:
  "all_transactions net cfg address cap =
   accumulate (\<lambda>p. make_request net cfg
                      (transactions_params address None None p (min 100 cap) ''desc'') ''GET'') cap"
proof -
  have "(\<lambda>page. get_transactions net cfg address None None page (min 100 cap) ''desc'') =
        (\<lambda>p. make_request net cfg
                (transactions_params address None None p (min 100 cap) ''desc'') ''GET'')"
    by (intro ext) (simp add: get_transactions_def)
  then show ?thesis by (intro ext) (simp add: all_transactions_def Let_def)
qed

lemma all_transfers_accumulate:
  "all_transfers net cfg address contract cap =
   accumulate (\<lambda>p. make_request net cfg
                      (token_transfers_params address contract None None p 100 ''desc'') ''GET'') cap"
proof -
  have "(\<lambda>page. get_token_transfers net cfg address contract None None page 100 ''desc'') =
        (\<lambda>p. make_request net cfg
                (token_transfers_params address contract None None p 100 ''desc'') ''GET'')"
    by (intro ext) (simp add: get_token_transfers_def)
  then show ?thesis by (intro ext) (simp add: all_transfers_def Let_def)
qed

lemma all_holders_accumulate:
  "all_holders net cfg contract cap =
   accumulate (\<lambda>p. make_request net cfg (token_holders_params contract p (min 100 cap)) ''GET'') cap"
proof -
  have "(\<lambda>page. get_token_holders net cfg contract page (min 100 cap)) =
        (\<lambda>p. make_request net cfg (token_holders_params contract p (min 100 cap)) ''GET'')"
    by (intro ext) (simp add: get_token_holders_def)
  then show ?thesis by (intro ext) (simp add: all_holders_def Let_def)
qed

lemma accumulate_negative_cap: "cap < 0 \<Longrightarrow> accumulate fetch cap w = (Inr [], w)"
  by (simp add: accumulate_def paginate_done slice_to_def)

lemma accumulate_prefix:
  "0 \<le> cap \<Longrightarrow> fst (paginate fetch cap [] 1 w) = Inr xs \<Longrightarrow>
   fst (accumulate fetch cap w) = Inr (take (nat cap) xs)"
  by (auto simp: accumulate_def slice_to_def split: prod.splits sum.splits)

lemma serves_api_calls:
  assumes "serves (\<lambda>p. make_request net cfg (mk p) method) page w pgs w'"
  shows "api_calls w' = api_calls w @ map (\<lambda>p. (method, mk p)) [page..page + int (length pgs) - 1]"
  using assms
proof (induction pgs arbitrary: page w)
  case Nil
  then show ?case by simp
next
  case (Cons xs rest)
  from Cons.prems obtain r w1 where f: "make_request net cfg (mk page) method w = (Inr r, w1)"
    and rest: "serves (\<lambda>p. make_request net cfg (mk p) method) (page + 1) w1 rest w'"
    by (auto split: prod.splits sum.splits)
  from f have "api_calls w1 = api_calls w @ [(method, mk page)]"
    using make_request_api_calls [of net cfg "mk page" "method" w] by simp
  moreover from Cons.IH [OF rest]
  have "api_calls w' =
        api_calls w1 @ map (\<lambda>p. (method, mk p)) [page + 1..page + 1 + int (length rest) - 1]" .
  moreover have "[page..page + int (length (xs # rest)) - 1] =
                 page # [page + 1..page + 1 + int (length rest) - 1]"
    by (subst upto_rec1) (simp_all add: algebra_simps)
  ultimately show ?case by simp
qed

section \<open>Properties of the block loop and of the CSV table\<close>

lemma block_loop_responses:
  assumes "\<forall>b\<in>set blocks. \<forall>v. fst (fetch b v) = Inr (resp b)"
  shows "fst (block_loop fetch blocks acc w) =
         Inr (acc @ map (\<lambda>b. dict_get_default (resp b) ''result'' (JObj []))
                      (filter (\<lambda>b. dict_get (resp b) ''status'' = Some (JStr ''1'')) blocks))"
  using assms
proof (induction blocks arbitrary: acc w)
  case Nil
  then show ?case by simp
next
  case (Cons b blocks)
  from Cons.prems have "fst (fetch b w) = Inr (resp b)" by simp
  then obtain w' where f: "fetch b w = (Inr (resp b), w')" by (cases "fetch b w") simp
  from Cons.prems have rest: "\<forall>b\<in>set blocks. \<forall>v. fst (fetch b v) = Inr (resp b)" by simp
  show ?case using f Cons.IH [OF rest] by simp
qed

lemma block_loop_calls:
  assumes "\<forall>b\<in>set blocks. \<forall>v. fst (get_block_reward net cfg b v) = Inr (resp b)"
  shows "api_calls (snd (block_loop (get_block_reward net cfg) blocks acc w)) =
         api_calls w @ map (\<lambda>b. (''GET'', block_reward_params b)) blocks"
  using assms
proof (induction blocks arbitrary: acc w)
  case Nil
  then show ?case by simp
next
  case (Cons b blocks)
  from Cons.prems have "fst (get_block_reward net cfg b w) = Inr (resp b)" by simp
  then obtain w' where f: "get_block_reward net cfg b w = (Inr (resp b), w')"
    by (cases "get_block_reward net cfg b w") simp
  then have c: "api_calls w' = api_calls w @ [(''GET'', block_reward_params b)]"
    using make_request_api_calls [of net cfg "block_reward_params b" "''GET''" w]
    by (simp add: get_block_reward_def)
  from Cons.prems
  have rest: "\<forall>b\<in>set blocks. \<forall>v. fst (get_block_reward net cfg b v) = Inr (resp b)" by simp
  show ?case using f c Cons.IH [OF rest] by simp
qed

lemma collect_keys_dicts:
  "\<forall>r\<in>set data. \<exists>d. r = JObj d \<Longrightarrow>
   collect_keys data keys = Inr (keys \<union> (\<Union>r\<in>set data. record_keys r))"
proof (induction data arbitrary: keys)
  case Nil
  then show ?case by simp
next
  case (Cons r data)
  then obtain d where "r = JObj d" by auto
  with Cons show ?case by auto
qed

lemma finite_record_keys: "finite (\<Union>r\<in>set data. record_keys r)"
proof -
  have "finite (record_keys r)" for r by (cases r) simp_all
  then show ?thesis by simp
qed

section \<open>Evaluation on the sample inputs\<close>

lemmas client_eval =
  make_request_def make_request_exit_def attempts.simps Let_def flaky_def default_config_def
  world0_def verb_of_def upper_def upper_char_def sleep_def ok_body_def error_body_def
  dict_get_def dict_get_default_def no_delay_config_def no_retries_config_def

lemmas endpoint_eval =
  get_balance_multi_def balance_multi_params_def get_transactions_def transactions_params_def
  get_token_transfers_def token_transfers_params_def get_token_holders_def
  token_holders_params_def get_block_reward_def block_reward_params_def
  get_contract_source_code_def opt_int_param_def paged_server_def page_body_def

lemmas extractor_eval =
  accumulate_def paginate.simps slice_to_def all_transactions_def all_transfers_def
  all_holders_def tx1_def tx2_def tx3_def

section \<open>The request executor\<close>

text \<open>
  C2 (amended).  With \<open>max_retries = 3\<close> and a retry delay that is not negative, a request
  whose first two attempts fail with a transport error and whose third attempt succeeds
  returns the decoded response of the third attempt after exactly two sleeps,
  \<open>retry_delay * 1\<close> then \<open>retry_delay * 2\<close>; a request whose three attempts all fail
  with a transport error makes the same two sleeps and leaves through the bare \<open>raise\<close>
  with the third attempt's error, without a third sleep.  At most three exchanges are
  started.  The second sleep is strictly longer than the first when the delay is positive.
\<close>

theorem retry_backoff_three_attempts:
  assumes "max_retries cfg = 3" and "0 \<le> retry_delay cfg"
    and "net (length (http_log w)) (verb_of method) params = Raised (RequestException m1)"
    and "net (length (http_log w) + 1) (verb_of method) params = Raised (RequestException m2)"
  shows "(net (length (http_log w) + 2) (verb_of method) params = Decoded data \<longrightarrow>
            fst (make_request net cfg params method w) = Inr data \<and>
            sleeps (snd (make_request net cfg params method w)) =
              sleeps w @ [retry_delay cfg * 1, retry_delay cfg * 2]) \<and>
         (net (length (http_log w) + 2) (verb_of method) params = Raised (RequestException m3) \<longrightarrow>
            fst (make_request_exit net cfg params method w) = Reraised (RequestException m3) \<and>
            fst (make_request net cfg params method w) = Inl (RequestException m3) \<and>
            sleeps (snd (make_request net cfg params method w)) =
              sleeps w @ [retry_delay cfg * 1, retry_delay cfg * 2]) \<and>
         length (http_log (snd (make_request net cfg params method w))) \<le> length (http_log w) + 3 \<and>
         (0 < retry_delay cfg \<longrightarrow> retry_delay cfg * 1 < retry_delay cfg * 2)"
proof -
  let ?w0 = "w\<lparr>api_calls := api_calls w @ [(method, params)]\<rparr>"
  let ?w1 = "?w0\<lparr>http_log := http_log ?w0 @ [(verb_of method, params)],
                warnings := warnings ?w0 @ [AttemptFailed (0 + 1) m1],
                sleeps := sleeps ?w0 @ [retry_delay cfg * (0 + 1)]\<rparr>"
  let ?w2 = "?w1\<lparr>http_log := http_log ?w1 @ [(verb_of method, params)],
                warnings := warnings ?w1 @ [AttemptFailed (1 + 1) m2],
                sleeps := sleeps ?w1 @ [retry_delay cfg * (1 + 1)]\<rparr>"
  have s1: "attempts net cfg params method 0 ?w0 = attempts net cfg params method (0 + 1) ?w1"
    using assms by (intro attempts_retry) simp_all
  have s2: "attempts net cfg params method 1 ?w1 = attempts net cfg params method (1 + 1) ?w2"
    using assms by (intro attempts_retry) simp_all
  have run: "make_request_exit net cfg params method w = attempts net cfg params method 2 ?w2"
    using s1 s2 by (simp add: make_request_exit_def)
  have len: "length (http_log ?w2) = length (http_log w) + 2" by simp
  have a: "fst (make_request net cfg params method w) = Inr data \<and>
           sleeps (snd (make_request net cfg params method w)) =
              sleeps w @ [retry_delay cfg * 1, retry_delay cfg * 2]"
    if "net (length (http_log w) + 2) (verb_of method) params = Decoded data"
  proof -
    have "attempts net cfg params method 2 ?w2 =
      (Returned data,
       ?w2\<lparr>http_log := http_log ?w2 @ [(verb_of method, params)],
         warnings := warnings ?w2 @
           (if dict_get data ''status'' = Some (JStr ''0'')
            then [ApiReturnedError (dict_get_default data ''message'' (JStr ''Unknown error''))]
            else [])\<rparr>)"
      using assms that by (intro attempts_decoded) simp_all
    then show ?thesis by (simp add: make_request_def run)
  qed
  have b: "fst (make_request_exit net cfg params method w) = Reraised (RequestException m3) \<and>
           fst (make_request net cfg params method w) = Inl (RequestException m3) \<and>
           sleeps (snd (make_request net cfg params method w)) =
              sleeps w @ [retry_delay cfg * 1, retry_delay cfg * 2]"
    if "net (length (http_log w) + 2) (verb_of method) params = Raised (RequestException m3)"
  proof -
    have "attempts net cfg params method 2 ?w2 =
      (Reraised (RequestException m3),
        ?w2\<lparr>http_log := http_log ?w2 @ [(verb_of method, params)],
           warnings := warnings ?w2 @ [AttemptFailed (2 + 1) m3]\<rparr>)"
      using assms that by (intro attempts_last) simp_all
    then show ?thesis by (simp add: make_request_def run)
  qed
  have c: "length (http_log (snd (make_request net cfg params method w))) \<le> length (http_log w) + 3"
  proof (cases "net (length (http_log w) + 2) (verb_of method) params")
    case (Decoded d)
    have "attempts net cfg params method 2 ?w2 =
      (Returned d,
       ?w2\<lparr>http_log := http_log ?w2 @ [(verb_of method, params)],
         warnings := warnings ?w2 @
           (if dict_get d ''status'' = Some (JStr ''0'')
            then [ApiReturnedError (dict_get_default d ''message'' (JStr ''Unknown error''))]
            else [])\<rparr>)"
      using assms Decoded by (intro attempts_decoded) simp_all
    then show ?thesis by (simp add: make_request_def run)
  next
    case (Raised e)
    show ?thesis
    proof (cases "\<exists>msg. e = RequestException msg")
      case True
      then obtain msg where "e = RequestException msg" by blast
      with Raised assms have "attempts net cfg params method 2 ?w2 =
        (Reraised (RequestException msg),
          ?w2\<lparr>http_log := http_log ?w2 @ [(verb_of method, params)],
             warnings := warnings ?w2 @ [AttemptFailed (2 + 1) msg]\<rparr>)"
        by (intro attempts_last) simp_all
      then show ?thesis by (simp add: make_request_def run)
    next
      case False
      with Raised assms have "attempts net cfg params method 2 ?w2 =
        (Uncaught e, ?w2\<lparr>http_log := http_log ?w2 @ [(verb_of method, params)]\<rparr>)"
        by (intro attempts_uncaught) simp_all
      then show ?thesis by (simp add: make_request_def run)
    qed
  qed
  from a b c assms(2) show ?thesis by simp
qed

theorem retry_backoff_three_attempts_witness:
  "max_retries default_config = 3 \<and> 0 \<le> retry_delay default_config \<and>
   flaky 2 (Decoded ok_body) 0 GET [] = Raised (RequestException ''connection refused'') \<and>
   flaky 2 (Decoded ok_body) 1 GET [] = Raised (RequestException ''connection refused'') \<and>
   flaky 2 (Decoded ok_body) 2 GET [] = Decoded ok_body \<and>
   fst (make_request (flaky 2 (Decoded ok_body)) default_config [] ''GET'' world0) = Inr ok_body \<and>
   sleeps (snd (make_request (flaky 2 (Decoded ok_body)) default_config [] ''GET'' world0)) = [1, 2] \<and>
   fst (make_request (flaky 3 (Decoded ok_body)) default_config [] ''GET'' world0) =
     Inl (RequestException ''connection refused'') \<and>
   sleeps (snd (make_request (flaky 3 (Decoded ok_body)) default_config [] ''GET'' world0)) = [1, 2]"
  using retry_backoff_three_attempts [of default_config "flaky 2 (Decoded ok_body)" world0 "''GET''" "[]"
          "''connection refused''" "''connection refused''" ok_body "''x''"]
        retry_backoff_three_attempts [of default_config "flaky 3 (Decoded ok_body)" world0 "''GET''" "[]"
          "''connection refused''" "''connection refused''" ok_body "''connection refused''"]
  by (simp add: flaky_def default_config_def world0_def verb_of_def upper_def upper_char_def)

text \<open>
  With a retry delay of zero the two failures are followed by two sleeps of length zero:
  the durations are not strictly increasing.
\<close>

theorem retry_backoff_zero_delay_counterexample:
  "max_retries no_delay_config = 3 \<and>
   fst (make_request (flaky 2 (Decoded ok_body)) no_delay_config [] ''GET'' world0) = Inr ok_body \<and>
   sleeps (snd (make_request (flaky 2 (Decoded ok_body)) no_delay_config [] ''GET'' world0)) = [0, 0] \<and>
   \<not> hd (sleeps (snd (make_request (flaky 2 (Decoded ok_body)) no_delay_config [] ''GET'' world0)))
     < last (sleeps (snd (make_request (flaky 2 (Decoded ok_body)) no_delay_config [] ''GET'' world0)))"
  by (simp add: client_eval)

text \<open>
  C5.  Whenever the exchange of an attempt succeeds, the loop leaves through
  \<open>return data\<close> with the decoded body as it is, whatever its \<open>status\<close> field: exactly this
  one exchange is added (no retry), nothing is slept, and the only thing logged is a
  warning when \<open>status\<close> is \<open>"0"\<close>.  For the first attempt this is the result of
  \<open>_make_request\<close>.
\<close>

theorem successful_exchange_returned_unchanged:
  assumes "attempt < max_retries cfg"
    and "net (length (http_log w)) (verb_of method) params = Decoded data"
  shows "result_of (fst (attempts net cfg params method attempt w)) = Inr data \<and>
         http_log (snd (attempts net cfg params method attempt w)) =
           http_log w @ [(verb_of method, params)] \<and>
         sleeps (snd (attempts net cfg params method attempt w)) = sleeps w \<and>
         warnings (snd (attempts net cfg params method attempt w)) =
           warnings w @
           (if dict_get data ''status'' = Some (JStr ''0'')
            then [ApiReturnedError (dict_get_default data ''message'' (JStr ''Unknown error''))]
            else []) \<and>
         (attempt = 0 \<longrightarrow> fst (make_request net cfg params method w) = Inr data)"
  using assms by (simp add: attempts_decoded make_request_fst make_request_exit_def)

theorem successful_exchange_returned_unchanged_witness:
  "0 < max_retries default_config \<and>
   flaky 0 (Decoded error_body) (length (http_log world0)) (verb_of ''GET'') [] = Decoded error_body \<and>
   fst (make_request (flaky 0 (Decoded error_body)) default_config [] ''GET'' world0) = Inr error_body \<and>
   http_log (snd (attempts (flaky 0 (Decoded error_body)) default_config [] ''GET'' 0 world0)) =
     [(GET, [])] \<and>
   sleeps (snd (attempts (flaky 0 (Decoded error_body)) default_config [] ''GET'' 0 world0)) = [] \<and>
   warnings (snd (attempts (flaky 0 (Decoded error_body)) default_config [] ''GET'' 0 world0)) =
     [ApiReturnedError (JStr ''NOTOK'')]"
  using successful_exchange_returned_unchanged
          [of 0 default_config "flaky 0 (Decoded error_body)" world0 "''GET''" "[]" error_body]
  by (simp add: flaky_def default_config_def world0_def verb_of_def upper_def upper_char_def
        error_body_def dict_get_def dict_get_default_def)

text \<open>
  C9.  \<open>_make_request\<close> leaves through the \<open>raise\<close> after the loop exactly when
  \<open>max_retries \<le> 0\<close>; then no exchange is started and the caller gets a
  \<open>RequestException\<close> "Max retries exceeded".  With \<open>max_retries \<ge> 1\<close> at least one
  exchange is started and that way out is never taken.
\<close>

theorem fallback_only_without_attempts:
  "(fst (make_request_exit net cfg params method w) = MaxRetriesExceeded) = (max_retries cfg \<le> 0) \<and>
   (max_retries cfg \<le> 0 \<longrightarrow>
      http_log (snd (make_request net cfg params method w)) = http_log w \<and>
      fst (make_request net cfg params method w) = Inl (RequestException ''Max retries exceeded'')) \<and>
   (1 \<le> max_retries cfg \<longrightarrow>
      length (http_log w) < length (http_log (snd (make_request net cfg params method w))))"
proof (cases "0 < max_retries cfg")
  case True
  then show ?thesis
    using attempts_invariant [OF refl, of 0 cfg net params "method"
                               "w\<lparr>api_calls := api_calls w @ [(method, params)]\<rparr>"]
    by (simp add: make_request_snd make_request_exit_def)
next
  case False
  then show ?thesis
    by (simp add: make_request_snd make_request_fst make_request_exit_def attempts_exhausted)
qed

theorem fallback_only_without_attempts_witness:
  "max_retries no_retries_config \<le> 0 \<and> 1 \<le> max_retries default_config \<and>
   fst (make_request_exit (flaky 0 (Decoded ok_body)) no_retries_config [] ''GET'' world0) =
     MaxRetriesExceeded \<and>
   http_log (snd (make_request (flaky 0 (Decoded ok_body)) no_retries_config [] ''GET'' world0)) = [] \<and>
   fst (make_request_exit (flaky 3 (Decoded ok_body)) default_config [] ''GET'' world0) \<noteq>
     MaxRetriesExceeded \<and>
   0 < length (http_log (snd (make_request (flaky 3 (Decoded ok_body)) default_config [] ''GET'' world0)))"
  using fallback_only_without_attempts [of "flaky 0 (Decoded ok_body)" no_retries_config "[]" "''GET''" world0]
        fallback_only_without_attempts [of "flaky 3 (Decoded ok_body)" default_config "[]" "''GET''" world0]
  by (simp add: no_retries_config_def default_config_def world0_def)

text \<open>
  C10.  \<open>get_balance_multi\<close> with more than 20 addresses raises the \<open>ValueError\<close>
  "Maximum 20 addresses allowed" and leaves the world as it was: no call, no exchange.
  With 20 addresses or fewer it is one call of \<open>_make_request\<close>, whose \<open>address\<close>
  parameter is the addresses joined by commas.
\<close>

theorem get_balance_multi_limit:
  "(20 < length addresses \<longrightarrow>
      get_balance_multi net cfg addresses w = (Inl (ValueError ''Maximum 20 addresses allowed''), w)) \<and>
   (length addresses \<le> 20 \<longrightarrow>
      get_balance_multi net cfg addresses w =
        make_request net cfg (balance_multi_params addresses) ''GET'' w \<and>
      api_calls (snd (get_balance_multi net cfg addresses w)) =
        api_calls w @ [(''GET'', balance_multi_params addresses)] \<and>
      dict_get (balance_multi_params addresses) ''address'' = Some (JStr (join '','' addresses)))"
  by (simp add: get_balance_multi_def make_request_api_calls balance_multi_params_def dict_get_def)

theorem get_balance_multi_limit_witness:
  "20 < length (replicate 21 ''0x00'') \<and>
   get_balance_multi (flaky 0 (Decoded ok_body)) default_config (replicate 21 ''0x00'') world0 =
     (Inl (ValueError ''Maximum 20 addresses allowed''), world0) \<and>
   length [''0x01'', ''0x02''] \<le> 20 \<and>
   api_calls (snd (get_balance_multi (flaky 0 (Decoded ok_body)) default_config
                     [''0x01'', ''0x02''] world0)) =
     [(''GET'', [(''module'', JStr ''account''), (''action'', JStr ''balancemulti''),
                 (''address'', JStr ''0x01,0x02'')])]"
  using get_balance_multi_limit [of "replicate 21 ''0x00''" "flaky 0 (Decoded ok_body)" default_config world0]
        get_balance_multi_limit [of "[''0x01'', ''0x02'']" "flaky 0 (Decoded ok_body)" default_config world0]
  by (simp add: balance_multi_params_def world0_def make_request_api_calls)

section \<open>The pagination accumulator\<close>

text \<open>
  C3.  When the pages before it were fetched with status \<open>"1"\<close> and non-empty lists, and
  the loop asks for the next page (the lists so far hold fewer than \<open>cap\<close> records) and
  gets a response whose status is not \<open>"1"\<close>, the accumulator returns exactly the records
  of the earlier pages, in order, with no exception; the world is the one left by that
  last response.  With one earlier page this is: failure on page 2 yields the records of
  page 1.
\<close>

theorem failure_status_returns_partial:
  assumes "serves fetch 1 w pgs w1"
    and "int (length (concat pgs)) < cap"
    and "fetch (1 + int (length pgs)) w1 = (Inr r, w2)"
    and "dict_get r ''status'' \<noteq> Some (JStr ''1'')"
  shows "accumulate fetch cap w = (Inr (concat pgs), w2)"
proof -
  from assms(1,2)
  have "paginate fetch cap [] 1 w = paginate fetch cap ([] @ concat pgs) (1 + int (length pgs)) w1"
    by (intro paginate_serves) simp_all
  also from assms(2,3,4) have "\<dots> = (Inr (concat pgs), w2)"
    by (simp add: paginate_failure)
  finally show ?thesis using assms(2) by (simp add: accumulate_def slice_to_short)
qed

theorem failure_status_returns_partial_witness:
  "int (length (concat [[tx1, tx2]])) < 1000 \<and>
   fst (get_token_transfers (paged_server [[tx1, tx2]] 2) default_config ''0xabc'' None None None
          1 100 ''desc'' world0) = Inr (page_body [tx1, tx2]) \<and>
   fst (get_token_transfers (paged_server [[tx1, tx2]] 2) default_config ''0xabc'' None None None
          2 100 ''desc'' world0) = Inr error_body \<and>
   fst (all_transfers (paged_server [[tx1, tx2]] 2) default_config ''0xabc'' None 1000 world0) =
     Inr [tx1, tx2]"
proof -
  let ?fetch = "\<lambda>page. get_token_transfers (paged_server [[tx1, tx2]] 2) default_config ''0xabc''
                          None None None page 100 ''desc''"
  have "accumulate ?fetch 1000 world0 =
        (Inr (concat [[tx1, tx2]]), snd (?fetch 2 (snd (?fetch 1 world0))))"
    by (rule failure_status_returns_partial
               [where ?w1.0 = "snd (?fetch 1 world0)" and r = error_body])
       (simp_all add: client_eval endpoint_eval)
  then show ?thesis
    by (simp add: all_transfers_def client_eval endpoint_eval)
qed

text \<open>
  C1 (amended).  For every \<open>cap \<ge> 0\<close> and whatever the client returns for the pages,
  the accumulator, when it returns, returns at most \<open>cap\<close> records: the loop of
  \<open>extract_account_data\<close>, of \<open>extract_token_transfers\<close> and of \<open>extract_token_holders\<close>
  asks for a page only while it holds fewer than \<open>cap\<close> records, and what it returns is
  the first \<open>cap\<close> records of what the loop gathered.  It does return when every page
  request yields a response whose result is a list.  For \<open>cap < 0\<close> no page is requested
  and the result is empty.
\<close>

theorem accumulate_at_most_cap:
  "(0 \<le> cap \<longrightarrow>
      (\<forall>xs. fst (accumulate fetch cap w) = Inr xs \<longrightarrow> int (length xs) \<le> cap) \<and>
      (\<forall>xs. fst (all_transactions net cfg address cap v) = Inr xs \<longrightarrow> int (length xs) \<le> cap) \<and>
      (\<forall>xs. fst (all_transfers net cfg address contract cap v) = Inr xs \<longrightarrow> int (length xs) \<le> cap) \<and>
      (\<forall>xs. fst (all_holders net cfg address cap v) = Inr xs \<longrightarrow> int (length xs) \<le> cap) \<and>
      (\<forall>xs. fst (paginate fetch cap [] 1 w) = Inr xs \<longrightarrow>
            fst (accumulate fetch cap w) = Inr (take (nat cap) xs)) \<and>
      (\<forall>acc page. cap \<le> int (length acc) \<longrightarrow> paginate fetch cap acc page w = (Inr acc, w)) \<and>
      ((\<forall>p u. \<exists>r u'. fetch p u = (Inr r, u') \<and>
                (\<exists>xs. dict_get_default r ''result'' (JArr []) = JArr xs)) \<longrightarrow>
       (\<exists>xs. fst (accumulate fetch cap w) = Inr xs))) \<and>
   (cap < 0 \<longrightarrow> accumulate fetch cap w = (Inr [], w))"
proof (cases "0 \<le> cap")
  case True
  have a: "\<forall>xs. fst (accumulate fetch cap w) = Inr xs \<longrightarrow> int (length xs) \<le> cap"
    by (auto dest: accumulate_length [OF True])
  have b: "\<forall>xs. fst (all_transactions net cfg address cap v) = Inr xs \<longrightarrow> int (length xs) \<le> cap"
    unfolding all_transactions_accumulate by (auto dest: accumulate_length [OF True])
  have c: "\<forall>xs. fst (all_transfers net cfg address contract cap v) = Inr xs \<longrightarrow> int (length xs) \<le> cap"
    unfolding all_transfers_accumulate by (auto dest: accumulate_length [OF True])
  have d: "\<forall>xs. fst (all_holders net cfg address cap v) = Inr xs \<longrightarrow> int (length xs) \<le> cap"
    unfolding all_holders_accumulate by (auto dest: accumulate_length [OF True])
  have e: "\<forall>xs. fst (paginate fetch cap [] 1 w) = Inr xs \<longrightarrow>
            fst (accumulate fetch cap w) = Inr (take (nat cap) xs)"
    by (auto dest: accumulate_prefix [OF True])
  have f: "\<forall>acc page. cap \<le> int (length acc) \<longrightarrow> paginate fetch cap acc page w = (Inr acc, w)"
    by (simp add: paginate_done)
  have g: "(\<forall>p u. \<exists>r u'. fetch p u = (Inr r, u') \<and>
                (\<exists>xs. dict_get_default r ''result'' (JArr []) = JArr xs)) \<longrightarrow>
       (\<exists>xs. fst (accumulate fetch cap w) = Inr xs)"
    by (auto intro: accumulate_returns)
  from True a b c d e f g show ?thesis by simp
next
  case False
  then show ?thesis by (simp add: accumulate_negative_cap)
qed

theorem accumulate_at_most_cap_witness:
  "(0::int) \<le> 2 \<and>
   fst (all_transactions (paged_server [[tx1, tx2, tx3]] 0) default_config ''0xabc'' 2 world0) =
     Inr [tx1, tx2] \<and>
   fst (all_transfers (paged_server [[tx1, tx2, tx3]] 0) default_config ''0xabc'' None 2 world0) =
     Inr [tx1, tx2] \<and>
   fst (all_holders (paged_server [[tx1, tx2, tx3]] 0) default_config ''0xabc'' 2 world0) =
     Inr [tx1, tx2] \<and>
   int (length [tx1, tx2]) \<le> 2 \<and>
   all_transfers (paged_server [[tx1, tx2, tx3]] 0) default_config ''0xabc'' None (- 1) world0 =
     (Inr [], world0)"
  using accumulate_at_most_cap
          [of 2 "\<lambda>p. get_transactions (paged_server [[tx1, tx2, tx3]] 0) default_config ''0xabc''
                       None None p 2 ''desc''" world0
              "paged_server [[tx1, tx2, tx3]] 0" default_config "''0xabc''" world0 None]
        accumulate_at_most_cap
          [of "- 1" "\<lambda>p. get_token_transfers (paged_server [[tx1, tx2, tx3]] 0) default_config
                       ''0xabc'' None None None p 100 ''desc''" world0
              "paged_server [[tx1, tx2, tx3]] 0" default_config "''0xabc''" world0 None]
  by (simp add: extractor_eval client_eval endpoint_eval)

text \<open>
  With \<open>cap = -1\<close> the result is the empty list, which is not "at most \<open>cap\<close>" records.
\<close>

theorem accumulate_negative_cap_counterexample:
  "fst (all_transfers (paged_server [[tx1]] 0) default_config ''0xabc'' None (- 1) world0) = Inr [] \<and>
   \<not> int (length ([] :: json list)) \<le> - 1"
  by (simp add: extractor_eval client_eval endpoint_eval)

text \<open>
  C4.  When the source holds \<open>N < cap\<close> records, served as non-empty pages 1 to \<open>k\<close>
  followed by an empty result on page \<open>k + 1\<close>, the accumulator returns exactly those \<open>N\<close>
  records in order, the world it leaves is the one left by the empty page (nothing is
  requested afterwards), and the calls it made are those for the pages 1, 2, ...,
  \<open>k + 1\<close> in this order.  \<open>mk\<close> builds the parameters of the call for a page; the three
  loops are the instances \<open>all_transactions_accumulate\<close>, \<open>all_transfers_accumulate\<close> and
  \<open>all_holders_accumulate\<close>.
\<close>

theorem short_source_returns_all_records:
  assumes "serves (\<lambda>p. make_request net cfg (mk p) method) 1 w pgs w1"
    and "int (length (concat pgs)) < cap"
    and "make_request net cfg (mk (1 + int (length pgs))) method w1 = (Inr r, w2)"
    and "dict_get r ''status'' = Some (JStr ''1'')"
    and "\<not> truthy (dict_get_default r ''result'' (JArr []))"
  shows "accumulate (\<lambda>p. make_request net cfg (mk p) method) cap w = (Inr (concat pgs), w2) \<and>
         api_calls w2 = api_calls w @ map (\<lambda>p. (method, mk p)) [1..1 + int (length pgs)]"
proof -
  let ?fetch = "\<lambda>p. make_request net cfg (mk p) method"
  from assms(1,2)
  have "paginate ?fetch cap [] 1 w = paginate ?fetch cap ([] @ concat pgs) (1 + int (length pgs)) w1"
    by (intro paginate_serves) simp_all
  also from assms(2,3,4,5) have "\<dots> = (Inr (concat pgs), w2)"
    by (simp add: paginate_empty [where r = r])
  finally have res: "accumulate ?fetch cap w = (Inr (concat pgs), w2)"
    using assms(2) by (simp add: accumulate_def slice_to_short)
  have "api_calls w1 = api_calls w @ map (\<lambda>p. (method, mk p)) [1..1 + int (length pgs) - 1]"
    by (rule serves_api_calls [OF assms(1)])
  moreover from assms(3)
  have "api_calls w2 = api_calls w1 @ [(method, mk (1 + int (length pgs)))]"
    using make_request_api_calls [of net cfg "mk (1 + int (length pgs))" "method" w1] by simp
  moreover have "[1..1 + int (length pgs)] = [1..1 + int (length pgs) - 1] @ [1 + int (length pgs)]"
    by (subst upto_rec2) simp_all
  ultimately have "api_calls w2 = api_calls w @ map (\<lambda>p. (method, mk p)) [1..1 + int (length pgs)]"
    by simp
  with res show ?thesis by simp
qed

theorem short_source_returns_all_records_witness:
  "int (length (concat [[tx1, tx2], [tx3]])) < 10 \<and>
   fst (all_transactions (paged_server [[tx1, tx2], [tx3]] 0) default_config ''0xabc'' 10 world0) =
     Inr [tx1, tx2, tx3] \<and>
   api_calls (snd (all_transactions (paged_server [[tx1, tx2], [tx3]] 0) default_config ''0xabc'' 10
                     world0)) =
     [(''GET'', transactions_params ''0xabc'' None None 1 10 ''desc''),
      (''GET'', transactions_params ''0xabc'' None None 2 10 ''desc''),
      (''GET'', transactions_params ''0xabc'' None None 3 10 ''desc'')]"
proof -
  let ?net = "paged_server [[tx1, tx2], [tx3]] 0"
  let ?mk = "\<lambda>p. transactions_params ''0xabc'' None None p 10 ''desc''"
  let ?fetch = "\<lambda>p. make_request ?net default_config (?mk p) ''GET''"
  let ?w1 = "snd (?fetch 2 (snd (?fetch 1 world0)))"
  have "accumulate ?fetch 10 world0 = (Inr (concat [[tx1, tx2], [tx3]]), snd (?fetch 3 ?w1)) \<and>
        api_calls (snd (?fetch 3 ?w1)) =
          api_calls world0 @ map (\<lambda>p. (''GET'', ?mk p)) [1..1 + int (length [[tx1, tx2], [tx3]])]"
    by (rule short_source_returns_all_records [where ?w1.0 = ?w1 and r = "page_body []"])
       (simp_all add: client_eval endpoint_eval)
  then show ?thesis
    by (simp add: all_transactions_accumulate world0_def upto.simps)
qed

section \<open>Block ranges\<close>

text \<open>
  C6.  When the client answers the request for each block \<open>b\<close> of the range with a
  response \<open>resp b\<close>, \<open>extract_block_range\<close> makes exactly one block-reward call per block
  number, from \<open>start_block\<close> up to \<open>end_block\<close> in ascending order, and its block list
  holds the \<open>result\<close> fields of exactly the responses with status \<open>"1"\<close>, in that order.
  For the blocks 100 to 102 with a failure on 101 the list has the two entries for 100
  and 102.
\<close>

theorem block_range_keeps_successful_blocks:
  assumes "\<forall>b\<in>{start_block..end_block}. \<forall>v. fst (get_block_reward net cfg b v) = Inr (resp b)"
  shows "fst (block_data net cfg start_block end_block w) =
           Inr (map (\<lambda>b. dict_get_default (resp b) ''result'' (JObj []))
                  (filter (\<lambda>b. dict_get (resp b) ''status'' = Some (JStr ''1''))
                     [start_block..end_block])) \<and>
         api_calls (snd (block_data net cfg start_block end_block w)) =
           api_calls w @ map (\<lambda>b. (''GET'', block_reward_params b)) [start_block..end_block]"
  using assms
        block_loop_responses [of "[start_block..end_block]" "get_block_reward net cfg" resp "[]" w]
        block_loop_calls [of "[start_block..end_block]" net cfg resp "[]" w]
  by (simp add: block_data_def)

theorem block_range_keeps_successful_blocks_witness:
  "fst (block_data (block_server 101) default_config 100 102 world0) =
     Inr [JObj [(''blockNumber'', JNum 100), (''blockReward'', JStr ''0'')],
          JObj [(''blockNumber'', JNum 102), (''blockReward'', JStr ''0'')]] \<and>
   api_calls (snd (block_data (block_server 101) default_config 100 102 world0)) =
     [(''GET'', block_reward_params 100), (''GET'', block_reward_params 101),
      (''GET'', block_reward_params 102)]"
proof -
  have "\<forall>b\<in>{100..102}. \<forall>v. fst (get_block_reward (block_server 101) default_config b v) =
          Inr (if b = 101 then error_body else block_body b)"
    by (simp add: get_block_reward_def make_request_first_ok default_config_def
          block_server_def block_reward_params_def dict_get_def verb_of_def upper_def upper_char_def)
  from block_range_keeps_successful_blocks [OF this, of world0]
  show ?thesis
    by (simp add: world0_def error_body_def block_body_def dict_get_def dict_get_default_def)
qed

section \<open>CSV serialization\<close>

text \<open>
  C7.  For a non-empty list of records (dicts), the header of the table \<open>_save_csv\<close>
  writes is the sorted, duplicate-free list of the keys of all records, and the cell of a
  record in the column of a key it lacks is the empty string.
\<close>

theorem csv_header_is_sorted_union:
  assumes "data \<noteq> []" and "\<forall>r\<in>set data. \<exists>d. r = JObj d"
  shows "csv_table data =
           Inr (CsvTable (sorted_list_of_set (\<Union>r\<in>set data. record_keys r))
                  (map (csv_row (sorted_list_of_set (\<Union>r\<in>set data. record_keys r))) data)) \<and>
         sorted (sorted_list_of_set (\<Union>r\<in>set data. record_keys r)) \<and>
         distinct (sorted_list_of_set (\<Union>r\<in>set data. record_keys r)) \<and>
         set (sorted_list_of_set (\<Union>r\<in>set data. record_keys r)) = (\<Union>r\<in>set data. record_keys r) \<and>
         (\<forall>d header. csv_row header (JObj d) =
            map (\<lambda>key. case map_of d key of None \<Rightarrow> JStr [] | Some v \<Rightarrow> v) header) \<and>
         save_csv ex data filename subdir w =
           (Inr (Some (path_join (if subdir \<noteq> [] then path_join (csv_dir ex) subdir else csv_dir ex)
                         (filename @ ''.csv''))),
            w\<lparr>files := files w @
               [(path_join (if subdir \<noteq> [] then path_join (csv_dir ex) subdir else csv_dir ex)
                   (filename @ ''.csv''),
                 CsvTable (sorted_list_of_set (\<Union>r\<in>set data. record_keys r))
                  (map (csv_row (sorted_list_of_set (\<Union>r\<in>set data. record_keys r))) data))]\<rparr>)"
proof -
  have t: "csv_table data =
           Inr (CsvTable (sorted_list_of_set (\<Union>r\<in>set data. record_keys r))
                  (map (csv_row (sorted_list_of_set (\<Union>r\<in>set data. record_keys r))) data))"
    using assms(2) by (simp add: csv_table_def collect_keys_dicts Let_def)
  have s: "set (sorted_list_of_set (\<Union>r\<in>set data. record_keys r)) = (\<Union>r\<in>set data. record_keys r)"
    using finite_record_keys [of data] by simp
  have r: "\<forall>d header. csv_row header (JObj d) =
            map (\<lambda>key. case map_of d key of None \<Rightarrow> JStr [] | Some v \<Rightarrow> v) header"
    by (simp add: dict_get_default_def)
  show ?thesis
    using assms(1) t s r by (simp add: save_csv_def Let_def write_file_def)
qed

theorem csv_header_is_sorted_union_witness:
  "csv_sample \<noteq> [] \<and>
   csv_table csv_sample =
     Inr (CsvTable [''a'', ''b'', ''c''] [[JNum 1, JNum 2, JStr []], [JNum 3, JStr [], JNum 4]])"
proof -
  have keys: "(\<Union>r\<in>set csv_sample. record_keys r) = {''a'', ''b'', ''c''}"
    by (auto simp: csv_sample_def)
  have header: "sorted_list_of_set {''a'', ''b'', ''c''} = [''a'', ''b'', ''c'']"
    by simp
  have dicts: "csv_sample \<noteq> [] \<and> (\<forall>r\<in>set csv_sample. \<exists>d. r = JObj d)"
    by (simp add: csv_sample_def)
  with csv_header_is_sorted_union [of csv_sample sample_extractor "''blocks''" "''blocks''" world0]
  have "csv_table csv_sample =
          Inr (CsvTable [''a'', ''b'', ''c''] (map (csv_row [''a'', ''b'', ''c'']) csv_sample))"
    unfolding keys header by blast
  then show ?thesis
    by (simp add: csv_sample_def dict_get_default_def)
qed

section \<open>Contract extraction\<close>

text \<open>
  C8 (amended).  When the contract's ABI field is a text on which \<open>json.loads\<close> raises
  \<open>JSONDecodeError\<close>, the error is caught, the warning is logged and the extraction
  returns normally: the full-data JSON file and the source file are written and listed
  in the result, and no ABI file is written or listed.
\<close>

theorem malformed_abi_is_skipped:
  assumes "get_contract_source_code net cfg contract_address w = (Inr source_result, w1)"
    and "dict_get source_result ''status'' = Some (JStr ''1'')"
    and "dict_get_default source_result ''result'' (JArr []) = JArr (JObj c # others)"
    and "dict_get_default c ''SourceCode'' (JStr []) = JStr code"
    and "dict_get_default c ''ABI'' (JStr []) = JStr abi_text"
    and "loads abi_text = JSONDecodeError"
  shows "extract_contract_data loads net cfg ex timestamp contract_address w =
           (Inr [(''full_data'',
                  path_join (path_join (json_dir ex) (''contract_'' @ take 10 contract_address))
                    (timestamp @ ''_contract_full'' @ ''.json'')),
                 (''source_code'',
                  path_join (path_join (output_dir ex) (''contract_'' @ take 10 contract_address))
                    (timestamp @ ''_source.sol''))],
            w1\<lparr>files := files w1 @
                  [(path_join (path_join (json_dir ex) (''contract_'' @ take 10 contract_address))
                      (timestamp @ ''_contract_full'' @ ''.json''),
                    JsonText (JObj c)),
                   (path_join (path_join (output_dir ex) (''contract_'' @ take 10 contract_address))
                      (timestamp @ ''_source.sol''),
                    PlainText code)],
                warnings := warnings w1 @ [CouldNotParseABI]\<rparr>)"
  using assms
  by (simp add: extract_contract_data_def Let_def save_json_def write_file_def)

theorem malformed_abi_is_skipped_witness:
  "sample_loads ''Contract source code not verified'' = JSONDecodeError \<and>
   fst (extract_contract_data sample_loads (flaky 0 (Decoded contract_body)) default_config
          sample_extractor ''20260101_120000'' ''0x1234567890abcdef'' world0) =
     Inr [(''full_data'', ''out/json/contract_0x12345678/20260101_120000_contract_full.json''),
          (''source_code'', ''out/contract_0x12345678/20260101_120000_source.sol'')] \<and>
   map fst (files (snd (extract_contract_data sample_loads (flaky 0 (Decoded contract_body))
                          default_config sample_extractor ''20260101_120000''
                          ''0x1234567890abcdef'' world0))) =
     [''out/json/contract_0x12345678/20260101_120000_contract_full.json'',
      ''out/contract_0x12345678/20260101_120000_source.sol''] \<and>
   warnings (snd (extract_contract_data sample_loads (flaky 0 (Decoded contract_body))
                    default_config sample_extractor ''20260101_120000''
                    ''0x1234567890abcdef'' world0)) = [CouldNotParseABI]"
proof -
  let ?net = "flaky 0 (Decoded contract_body)"
  have short: "''Contract source code not verified'' \<noteq> replicate 1000 CHR ''[''"
  proof
    assume "''Contract source code not verified'' = replicate 1000 CHR ''[''"
    then have "length ''Contract source code not verified'' = length (replicate 1000 CHR ''['')"
      by (rule arg_cong)
    then show False by simp
  qed
  have "extract_contract_data sample_loads ?net default_config sample_extractor
          ''20260101_120000'' ''0x1234567890abcdef'' world0 =
        (Inr [(''full_data'',
               path_join (path_join (json_dir sample_extractor)
                            (''contract_'' @ take 10 ''0x1234567890abcdef''))
                 (''20260101_120000'' @ ''_contract_full'' @ ''.json'')),
              (''source_code'',
               path_join (path_join (output_dir sample_extractor)
                            (''contract_'' @ take 10 ''0x1234567890abcdef''))
                 (''20260101_120000'' @ ''_source.sol''))],
         (snd (get_contract_source_code ?net default_config ''0x1234567890abcdef'' world0))
           \<lparr>files := files (snd (get_contract_source_code ?net default_config
                                   ''0x1234567890abcdef'' world0)) @
               [(path_join (path_join (json_dir sample_extractor)
                              (''contract_'' @ take 10 ''0x1234567890abcdef''))
                   (''20260101_120000'' @ ''_contract_full'' @ ''.json''),
                 JsonText (JObj [(''SourceCode'', JStr ''contract C {}''),
                                 (''ABI'', JStr ''Contract source code not verified'')])),
                (path_join (path_join (output_dir sample_extractor)
                              (''contract_'' @ take 10 ''0x1234567890abcdef''))
                   (''20260101_120000'' @ ''_source.sol''),
                 PlainText ''contract C {}'')],
             warnings := warnings (snd (get_contract_source_code ?net default_config
                                          ''0x1234567890abcdef'' world0)) @
               [CouldNotParseABI]\<rparr>)"
    by (rule malformed_abi_is_skipped
               [where source_result = contract_body and others = "[]"
                  and abi_text = "''Contract source code not verified''"])
       (simp_all add: client_eval endpoint_eval contract_body_def contract_result_def
          sample_loads_def short)
  then show ?thesis
    by (simp add: client_eval endpoint_eval contract_body_def contract_result_def
          sample_loads_def short sample_extractor_def path_join_def json_dir_def)
qed

text \<open>
  An ABI that is not valid JSON text can still end the extraction with an exception, after
  the full-data file and the source file are written: an ABI field that is \<open>null\<close> makes
  \<open>json.loads\<close> raise \<open>TypeError\<close>, and a text of a thousand opening brackets makes it
  raise \<open>RecursionError\<close>; the handler catches neither.
\<close>

theorem malformed_abi_fatal_counterexample:
  "fst (extract_contract_data sample_loads (flaky 0 (Decoded null_abi_body)) default_config
          sample_extractor ''20260101_120000'' ''0x1234567890abcdef'' world0) =
     Inl (TypeError ''the JSON object must be str, bytes or bytearray'') \<and>
   sample_loads (replicate 1000 CHR ''['') =
     LoadsRaised (RecursionError ''maximum recursion depth exceeded'') \<and>
   fst (extract_contract_data sample_loads (flaky 0 (Decoded deep_abi_body)) default_config
          sample_extractor ''20260101_120000'' ''0x1234567890abcdef'' world0) =
     Inl (RecursionError ''maximum recursion depth exceeded'') \<and>
   map fst (files (snd (extract_contract_data sample_loads (flaky 0 (Decoded deep_abi_body))
                          default_config sample_extractor ''20260101_120000''
                          ''0x1234567890abcdef'' world0))) =
     [''out/json/contract_0x12345678/20260101_120000_contract_full.json'',
      ''out/contract_0x12345678/20260101_120000_source.sol'']"
proof -
  have deep: "replicate 1000 CHR ''['' \<noteq> ''[]''"
  proof
    assume "replicate 1000 CHR ''['' = ''[]''"
    then have "length (replicate 1000 CHR ''['') = length ''[]''"
      by (rule arg_cong)
    then show False by simp
  qed
  show ?thesis
    by (simp add: extract_contract_data_def save_json_def write_file_def first_item.simps
          client_eval endpoint_eval null_abi_body_def deep_abi_body_def contract_result_def
          sample_loads_def deep sample_extractor_def path_join_def json_dir_def)
qed

end
